theory Spec2Isabelle
  imports Main
begin

section \<open>Python values as the client sees them\<close>

text \<open>
  The module \<^verbatim>\<open>mylar/downloaders/jdownloader2.py\<close> navigates decoded JSON by duck
  typing (\<^verbatim>\<open>isinstance(x, dict)\<close>, \<^verbatim>\<open>x or y\<close>, \<^verbatim>\<open>x is None\<close>).  The values that
  \<^verbatim>\<open>resp.json()\<close> can produce are modelled by one datatype.  A dict is an association
  list read with \<open>map_of\<close>; a float is kept as its \<^verbatim>\<open>repr\<close> text, which determines it.
\<close>

datatype pyval =
    PNone
  | PBool bool
  | PInt int
  | PFloat string
  | PStr string
  | PList "pyval list"
  | PDict "(string \<times> pyval) list"

text \<open>Python truthiness (\<^verbatim>\<open>bool(x)\<close>) on these values.\<close>

fun py_truthy :: "pyval \<Rightarrow> bool" where
  "py_truthy PNone = False"
| "py_truthy (PBool b) = b"
| "py_truthy (PInt i) = (i \<noteq> 0)"
| "py_truthy (PFloat r) = (r \<noteq> ''0.0'' \<and> r \<noteq> ''-0.0'')"
| "py_truthy (PStr s) = (s \<noteq> [])"
| "py_truthy (PList xs) = (xs \<noteq> [])"
| "py_truthy (PDict kvs) = (kvs \<noteq> [])"

text \<open>\<^verbatim>\<open>a or b\<close>: the left operand when it is truthy, the right one otherwise.\<close>

definition py_or :: "pyval \<Rightarrow> pyval \<Rightarrow> pyval" where
  "py_or a b = (if py_truthy a then a else b)"

text \<open>\<^verbatim>\<open>isinstance(x, list)\<close>; \<^verbatim>\<open>isinstance(x, dict)\<close> is a \<open>case\<close> on \<open>PDict\<close> where it is used.\<close>

fun is_list :: "pyval \<Rightarrow> bool" where
  "is_list (PList xs) = True"
| "is_list v = False"

text \<open>\<^verbatim>\<open>d.get(k, default)\<close> on a dict.\<close>

definition dict_get :: "(string \<times> pyval) list \<Rightarrow> string \<Rightarrow> pyval \<Rightarrow> pyval" where
  "dict_get kvs k dflt = (case map_of kvs k of Some v \<Rightarrow> v | None \<Rightarrow> dflt)"

text \<open>Exceptions the module raises, catches or lets through.\<close>

datatype py_exn =
    ValueError string
  | AttributeError string
  | HTTPError int
  | OtherError string

text \<open>
  \<^verbatim>\<open>x.get(k, default)\<close> on an arbitrary value: only a dict has the attribute \<^verbatim>\<open>get\<close>;
  on a list, a string, a number or a boolean the attribute lookup raises AttributeError.
\<close>

fun py_get :: "pyval \<Rightarrow> string \<Rightarrow> pyval \<Rightarrow> py_exn + pyval" where
  "py_get (PDict kvs) k dflt = Inr (dict_get kvs k dflt)"
| "py_get v k dflt = Inl (AttributeError ''get'')"

subsection \<open>Decimal text\<close>

definition digit_char :: "nat \<Rightarrow> char" where
  "digit_char d = ''0123456789'' ! (d mod 10)"

fun dec :: "nat \<Rightarrow> string" where
  "dec n = (if n < 10 then [digit_char n] else dec (n div 10) @ [digit_char (n mod 10)])"

declare dec.simps [simp del]

text \<open>\<^verbatim>\<open>'%0wd' % n\<close>: decimal text, zero-padded on the left to width \<open>w\<close>.\<close>

definition zero_pad :: "nat \<Rightarrow> nat \<Rightarrow> string" where
  "zero_pad w n = replicate (w - length (dec n)) CHR ''0'' @ dec n"

definition str_int :: "int \<Rightarrow> string" where
  "str_int i = (if i < 0 then CHR ''-'' # dec (nat (- i)) else dec (nat i))"

subsection \<open>String helpers\<close>

text \<open>\<^verbatim>\<open>s.rstrip('/')\<close> and \<^verbatim>\<open>s.lstrip('/')\<close>.\<close>

definition rstrip_slash :: "string \<Rightarrow> string" where
  "rstrip_slash s = rev (dropWhile (\<lambda>c. c = CHR ''/'') (rev s))"

definition lstrip_slash :: "string \<Rightarrow> string" where
  "lstrip_slash s = dropWhile (\<lambda>c. c = CHR ''/'') s"

text \<open>\<^verbatim>\<open>a or b\<close> on \<^verbatim>\<open>Optional[str]\<close>: \<^verbatim>\<open>None\<close> and \<^verbatim>\<open>''\<close> are falsy.\<close>

fun opt_str_truthy :: "string option \<Rightarrow> bool" where
  "opt_str_truthy None = False"
| "opt_str_truthy (Some s) = (s \<noteq> [])"

definition opt_str_or :: "string option \<Rightarrow> string option \<Rightarrow> string option" where
  "opt_str_or a b = (if opt_str_truthy a then a else b)"

section \<open>The environment of the client\<close>

text \<open>
  A request as \<^verbatim>\<open>session.get(endpoint, params=params, timeout=self.timeout)\<close> sends it,
  and what the client reads of a response: the status code that
  \<^verbatim>\<open>raise_for_status\<close> inspects and the outcome of \<^verbatim>\<open>resp.json()\<close>.
\<close>

record request =
  url :: string
  params :: "(string \<times> string) list"
  req_timeout :: int

record response =
  status_code :: int
  json :: "py_exn + pyval"

type_synonym transport = "request \<Rightarrow> py_exn + response"

text \<open>
  \<^verbatim>\<open>requests.Response.raise_for_status\<close>: HTTPError for a 4xx or 5xx status code,
  nothing for any other code.
\<close>

definition raise_for_status :: "response \<Rightarrow> py_exn option" where
  "raise_for_status resp =
     (if 400 \<le> status_code resp \<and> status_code resp < 600
      then Some (HTTPError (status_code resp)) else None)"

record datetime =
  year :: nat
  month :: nat
  day :: nat
  hour :: nat
  minute :: nat

text \<open>
  \<^verbatim>\<open>dt.strftime('%Y-%m-%d %H:%M')\<close>.  Month, day, hour and minute are zero-padded to two
  digits.  For \<^verbatim>\<open>%Y\<close> CPython hands the year to the C library: glibc prints it unpadded
  (\<^verbatim>\<open>999-01-02 03:04\<close>), other libraries and later CPython versions pad it to four
  digits.  The first argument says whether the platform pads; from the year 1000 on both
  renderings are the same.
\<close>

definition strftime_ymd_hm :: "bool \<Rightarrow> datetime \<Rightarrow> string" where
  "strftime_ymd_hm pads dt =
     (if pads then zero_pad 4 (year dt) else dec (year dt))
       @ ''-'' @ zero_pad 2 (month dt) @ ''-'' @ zero_pad 2 (day dt)
       @ '' '' @ zero_pad 2 (hour dt) @ '':'' @ zero_pad 2 (minute dt)"

text \<open>
  Everything outside the module that a call reads or reaches: the process-wide
  configuration \<^verbatim>\<open>mylar.CONFIG\<close>, the default transport \<^verbatim>\<open>requests.Session()\<close>,
  \<^verbatim>\<open>os.makedirs\<close>, the record store \<^verbatim>\<open>mylar.db\<close>, the clock and how the platform
  renders \<^verbatim>\<open>%Y\<close>, and the two library renderings \<^verbatim>\<open>json.dumps\<close> and \<^verbatim>\<open>repr\<close>.  An \<open>option\<close> result is the exception
  raised, if any.
\<close>

record world =
  config_JD2_URL :: "string option"
  config_JD2_DEST_DIR :: "string option"
  default_session :: transport
  makedirs :: "string \<Rightarrow> py_exn option"
  db_connection :: "py_exn option"
  db_upsert :: "string \<Rightarrow> (string \<times> string) list \<Rightarrow> (string \<times> string) list \<Rightarrow> py_exn option"
  now :: datetime
  libc_pads_year :: bool
  json_dumps :: "pyval \<Rightarrow> string"
  py_repr :: "pyval \<Rightarrow> string"

text \<open>
  The effects of a call, in the order they happen.  A log event keeps the format string of
  the logger call; its arguments are not rendered.
\<close>

datatype event =
    HttpGet request
  | Makedirs string
  | DbConnect
  | DbUpsert string "(string \<times> string) list" "(string \<times> string) list"
  | LogWarn string
  | LogError string

text \<open>A call ends with a value or a raised exception, and leaves its effects behind.\<close>

type_synonym 'a outcome = "(py_exn + 'a) \<times> event list"

text \<open>\<^verbatim>\<open>str(x)\<close>; containers are rendered by \<^verbatim>\<open>repr\<close>.\<close>

fun py_str :: "world \<Rightarrow> pyval \<Rightarrow> string" where
  "py_str w PNone = ''None''"
| "py_str w (PBool b) = (if b then ''True'' else ''False'')"
| "py_str w (PInt i) = str_int i"
| "py_str w (PFloat r) = r"
| "py_str w (PStr s) = s"
| "py_str w v = py_repr w v"

section \<open>The client\<close>

text \<open>The attributes \<^verbatim>\<open>__init__\<close> sets on a \<^verbatim>\<open>JDownloader2\<close> object.\<close>

record client =
  base_url :: string
  timeout :: int
  session :: transport
  destination_root :: "string option"
  destination_folder :: "string option"

definition LINKGRABBER_ENDPOINT :: string where
  "LINKGRABBER_ENDPOINT = ''linkgrabberv2/addLinks''"

definition DOWNLOADS_ENDPOINT :: string where
  "DOWNLOADS_ENDPOINT = ''downloadsV2/queryLinks''"

text \<open>
  \<^verbatim>\<open>__init__(self, base_url=None, timeout=30, session=None)\<close>, lines 23 to 38.
  \<open>first_url\<close> is \<^verbatim>\<open>base_url or mylar.CONFIG.JD2_URL or ''\<close>; the base URL is that text
  with trailing slashes stripped, and ValueError is raised when what is left is empty.
  A configured destination directory is created; when \<^verbatim>\<open>os.makedirs\<close> raises, a warning is logged
  and \<^verbatim>\<open>destination_folder\<close> is reset to \<^verbatim>\<open>None\<close>.
\<close>

definition first_url :: "string option \<Rightarrow> string option \<Rightarrow> string" where
  "first_url base_url_arg configured =
     (case opt_str_or (opt_str_or base_url_arg configured) (Some []) of
        Some s \<Rightarrow> s
      | None \<Rightarrow> [])"

definition init :: "world \<Rightarrow> string option \<Rightarrow> int \<Rightarrow> transport option \<Rightarrow> client outcome" where
  "init w base_url_arg timeout_arg session_arg =
     (let bu = rstrip_slash (first_url base_url_arg (config_JD2_URL w))
      in if bu = [] then (Inl (ValueError ''JD2 URL is not configured''), [])
         else
           let self = \<lparr> base_url = bu,
                        timeout = timeout_arg,
                        session = (case session_arg of Some s \<Rightarrow> s | None \<Rightarrow> default_session w),
                        destination_root = config_JD2_DEST_DIR w,
                        destination_folder = None \<rparr>
           in case config_JD2_DEST_DIR w of
                None \<Rightarrow> (Inr self, [])
              | Some d \<Rightarrow>
                  if d = [] then (Inr self, [])
                  else (case makedirs w d of
                          None \<Rightarrow> (Inr (self\<lparr>destination_folder := Some d\<rparr>), [Makedirs d])
                        | Some err \<Rightarrow>
                            (Inr (self\<lparr>destination_folder := None\<rparr>),
                             [Makedirs d,
                              LogWarn ''[JD2] Unable to ensure destination folder exists: %s''])))"

text \<open>\<^verbatim>\<open>_url(self, endpoint)\<close>, line 41.\<close>

definition url_of :: "client \<Rightarrow> string \<Rightarrow> string" where
  "url_of self endpoint = base_url self @ ''/'' @ lstrip_slash endpoint"

text \<open>
  The \<^verbatim>\<open>try\<close> block both calls share (lines 55 to 61 and 110 to 116): the GET, then
  \<^verbatim>\<open>resp.raise_for_status()\<close>.  \<open>Inl\<close> is the exception the \<^verbatim>\<open>except\<close> clause receives.
\<close>

definition checked_get :: "client \<Rightarrow> request \<Rightarrow> py_exn + response" where
  "checked_get self req =
     (case session self req of
        Inl err \<Rightarrow> Inl err
      | Inr resp \<Rightarrow> (case raise_for_status resp of Some err \<Rightarrow> Inl err | None \<Rightarrow> Inr resp))"

text \<open>
  \<^verbatim>\<open>payload = resp.json() or {}\<close> inside \<^verbatim>\<open>try\<close>, \<^verbatim>\<open>payload = {}\<close> in the \<^verbatim>\<open>except\<close>
  clause (lines 67 to 71 and 121 to 125).  The flag tells whether decoding raised, in
  which case the caller logs a warning.
\<close>

definition decode_payload :: "response \<Rightarrow> pyval \<times> bool" where
  "decode_payload resp =
     (case json resp of
        Inl json_err \<Rightarrow> (PDict [], True)
      | Inr v \<Rightarrow> (py_or v (PDict []), False))"

subsection \<open>submit\<close>

text \<open>The result dict of \<^verbatim>\<open>submit\<close>; a key the dict does not have is \<open>None\<close>.\<close>

record submit_result =
  status :: bool
  jobid :: "string option"
  payload :: "pyval option"
  error :: "py_exn option"

text \<open>The query object of lines 45 to 52.\<close>

definition submit_query :: "client \<Rightarrow> string \<Rightarrow> string \<Rightarrow> bool \<Rightarrow> (string \<times> pyval) list" where
  "submit_query self link package_name autostart =
     [(''assignJobID'', PBool True),
      (''autostart'', PBool autostart),
      (''links'', PStr link),
      (''packageName'', PStr package_name)]
     @ (case destination_folder self of
          None \<Rightarrow> []
        | Some d \<Rightarrow> if d = [] then [] else [(''destinationFolder'', PStr d)])"

definition submit_request :: "world \<Rightarrow> client \<Rightarrow> string \<Rightarrow> string \<Rightarrow> bool \<Rightarrow> request" where
  "submit_request w self link package_name autostart =
     \<lparr> url = url_of self LINKGRABBER_ENDPOINT,
       params = [(''query'', json_dumps w (PDict (submit_query self link package_name autostart)))],
       req_timeout = timeout self \<rparr>"

text \<open>Lines 66 and 73 to 76: the job id read from the payload, \<open>PNone\<close> when none is.\<close>

definition extract_job_id :: "pyval \<Rightarrow> pyval" where
  "extract_job_id pl =
     (case pl of
        PDict kvs \<Rightarrow>
          (case dict_get kvs ''data'' pl of
             PDict d \<Rightarrow> py_or (dict_get d ''id'' PNone) (dict_get d ''jobID'' PNone)
           | _ \<Rightarrow> PNone)
      | _ \<Rightarrow> PNone)"

text \<open>
  Lines 82 to 95: the write to the record store, guarded by \<^verbatim>\<open>if record_id:\<close>.  Both
  \<^verbatim>\<open>db.DBConnection()\<close> and \<^verbatim>\<open>myDB.upsert(...)\<close> stand inside the \<^verbatim>\<open>try\<close>; either
  exception is logged and swallowed.
\<close>

definition upsert_values :: "world \<Rightarrow> string \<Rightarrow> (string \<times> string) list" where
  "upsert_values w job_key =
     [(''jd2_job_id'', job_key),
      (''status'', ''JD2-Submitted''),
      (''updated_date'', strftime_ymd_hm (libc_pads_year w) (now w))]"

definition persist_job :: "world \<Rightarrow> string \<Rightarrow> string option \<Rightarrow> event list" where
  "persist_job w job_key record_id =
     (case record_id of
        None \<Rightarrow> []
      | Some rid \<Rightarrow>
          if rid = [] then []
          else (case db_connection w of
                  Some err \<Rightarrow>
                    [DbConnect, LogWarn ''[JD2] Unable to persist job id %s for record %s: %s'']
                | None \<Rightarrow>
                    (case db_upsert w ''ddl_info'' (upsert_values w job_key) [(''id'', rid)] of
                       None \<Rightarrow>
                         [DbConnect, DbUpsert ''ddl_info'' (upsert_values w job_key) [(''id'', rid)]]
                     | Some err \<Rightarrow>
                         [DbConnect, DbUpsert ''ddl_info'' (upsert_values w job_key) [(''id'', rid)],
                          LogWarn ''[JD2] Unable to persist job id %s for record %s: %s''])))"

text \<open>Line 96: \<^verbatim>\<open>str(job_id) if job_id is not None else None\<close>.\<close>

definition jobid_text :: "world \<Rightarrow> pyval \<Rightarrow> string option" where
  "jobid_text w job_id = (if job_id = PNone then None else Some (py_str w job_id))"

text \<open>\<^verbatim>\<open>submit(self, link, package_name, autostart=True, record_id=None)\<close>, lines 43 to 96.\<close>

definition submit ::
  "world \<Rightarrow> client \<Rightarrow> string \<Rightarrow> string \<Rightarrow> bool \<Rightarrow> string option \<Rightarrow> submit_result outcome" where
  "submit w self link package_name autostart record_id =
     (let req = submit_request w self link package_name autostart in
      case checked_get self req of
        Inl err \<Rightarrow>
          (Inr \<lparr> status = False, jobid = None, payload = None, error = Some err \<rparr>,
           [HttpGet req, LogError ''[JD2] Failed to submit %s (url=%s params=%s): %s''])
      | Inr resp \<Rightarrow>
          (let (pl, json_failed) = decode_payload resp;
               decode_log = (if json_failed
                             then [LogWarn ''[JD2] Unable to decode submit response JSON: %s'']
                             else []);
               job_id = extract_job_id pl;
               store_log = (if job_id = PNone
                            then [LogWarn ''[JD2] No job id returned for %s'']
                            else persist_job w (py_str w job_id) record_id)
           in (Inr \<lparr> status = True, jobid = jobid_text w job_id, payload = Some pl,
                     error = None \<rparr>,
               [HttpGet req] @ decode_log @ store_log)))"

subsection \<open>query and status\<close>

definition query_object :: "string list \<Rightarrow> (string \<times> pyval) list" where
  "query_object job_ids =
     [(''jobUUID'', PBool True),
      (''jobUUIDs'', PList (map PStr job_ids)),
      (''status'', PBool True),
      (''maxResults'', PInt 1000),
      (''startAt'', PInt 0)]"

definition query_request :: "world \<Rightarrow> client \<Rightarrow> string list \<Rightarrow> request" where
  "query_request w self job_ids =
     \<lparr> url = url_of self DOWNLOADS_ENDPOINT,
       params = [(''queryParams'', json_dumps w (PDict (query_object job_ids)))],
       req_timeout = timeout self \<rparr>"

text \<open>
  \<^verbatim>\<open>query(self, job_ids)\<close>, lines 98 to 129.  Line 128 calls \<^verbatim>\<open>payload.get\<close> without
  an \<^verbatim>\<open>isinstance\<close> test and outside any \<^verbatim>\<open>try\<close>, so its AttributeError leaves the
  call.
\<close>

definition query :: "world \<Rightarrow> client \<Rightarrow> string list \<Rightarrow> pyval list outcome" where
  "query w self job_ids =
     (if job_ids = [] then (Inr [], [])
      else
        let req = query_request w self job_ids in
        case checked_get self req of
          Inl err \<Rightarrow>
            (Inr [], [HttpGet req, LogError ''[JD2] Failed to query job ids %s (url=%s params=%s): %s''])
        | Inr resp \<Rightarrow>
            (let (pl, json_failed) = decode_payload resp;
                 evs = [HttpGet req] @
                       (if json_failed
                        then [LogWarn ''[JD2] Unable to decode query response JSON: %s'']
                        else [])
             in case py_get pl ''data'' (if is_list pl then pl else PList []) of
                  Inl err \<Rightarrow> (Inl err, evs)
                | Inr data \<Rightarrow> (case data of PList xs \<Rightarrow> (Inr xs, evs) | _ \<Rightarrow> (Inr [], evs))))"

text \<open>The result dict of \<^verbatim>\<open>status\<close>, with \<open>PNone\<close> for \<^verbatim>\<open>None\<close>.\<close>

record status_result =
  found :: bool
  job_status :: pyval
  data :: pyval

text \<open>
  \<^verbatim>\<open>status(self, job_id)\<close>, lines 131 to 140.  The \<^verbatim>\<open>status\<close> entry of the result
  is \<^verbatim>\<open>package.get('status')\<close>, which is \<^verbatim>\<open>None\<close> for a dict without that key.
\<close>

definition job_status_of :: "world \<Rightarrow> client \<Rightarrow> string option \<Rightarrow> status_result outcome" where
  "job_status_of w self job_id =
     (case job_id of
        None \<Rightarrow> (Inr \<lparr> found = False, job_status = PNone, data = PNone \<rparr>, [])
      | Some j \<Rightarrow>
          (case query w self [j] of
             (Inl err, evs) \<Rightarrow> (Inl err, evs)
           | (Inr packages, evs) \<Rightarrow>
               (case packages of
                  [] \<Rightarrow> (Inr \<lparr> found = False, job_status = PNone, data = PNone \<rparr>, evs)
                | package # rest \<Rightarrow>
                    (Inr \<lparr> found = True,
                           job_status = (case package of
                                           PDict kvs \<Rightarrow> dict_get kvs ''status'' PNone
                                         | _ \<Rightarrow> PNone),
                           data = package \<rparr>,
                     evs))))"

section \<open>Test doubles\<close>

text \<open>
  A transport that answers every request with the same outcome, a world in which nothing
  outside the module fails, and a client as \<open>init\<close> builds it in that world.
\<close>

definition fixed_transport :: "py_exn + response \<Rightarrow> transport" where
  "fixed_transport r = (\<lambda>req. r)"

definition ok_response :: "pyval \<Rightarrow> py_exn + response" where
  "ok_response v = Inr \<lparr> status_code = 200, json = Inr v \<rparr>"

definition ok_response_with :: "int \<Rightarrow> pyval \<Rightarrow> py_exn + response" where
  "ok_response_with code v = Inr \<lparr> status_code = code, json = Inr v \<rparr>"

definition garbled_response :: "int \<Rightarrow> py_exn + response" where
  "garbled_response code = Inr \<lparr> status_code = code, json = Inl (ValueError ''Expecting value'') \<rparr>"

definition calm_world :: world where
  "calm_world =
     \<lparr> config_JD2_URL = Some ''http://localhost:3128/'',
       config_JD2_DEST_DIR = None,
       default_session = fixed_transport (Inl (OtherError ''connection refused'')),
       makedirs = (\<lambda>d. None),
       db_connection = None,
       db_upsert = (\<lambda>t vals keys. None),
       now = \<lparr> year = 2026, month = 11, day = 4, hour = 9, minute = 5 \<rparr>,
       libc_pads_year = False,
       json_dumps = (\<lambda>v. ''<json>''),
       py_repr = (\<lambda>v. ''<repr>'') \<rparr>"

definition mock_client :: "py_exn + response \<Rightarrow> client" where
  "mock_client r =
     \<lparr> base_url = ''http://localhost:3128'',
       timeout = 30,
       session = fixed_transport r,
       destination_root = None,
       destination_folder = None \<rparr>"

definition stormy_world :: world where
  "stormy_world =
     calm_world
       \<lparr> config_JD2_DEST_DIR := Some ''/downloads/jd2'',
         makedirs := (\<lambda>d. Some (OtherError ''Permission denied'')),
         db_upsert := (\<lambda>t vals keys. Some (OtherError ''database is locked'')) \<rparr>"

section \<open>Vocabulary of the properties\<close>

text \<open>The events that touch the record store.\<close>

fun is_db_event :: "event \<Rightarrow> bool" where
  "is_db_event DbConnect = True"
| "is_db_event (DbUpsert t vals keys) = True"
| "is_db_event e = False"

fun is_http_get :: "event \<Rightarrow> bool" where
  "is_http_get (HttpGet req) = True"
| "is_http_get e = False"

text \<open>
  The invariant of a Python \<^verbatim>\<open>datetime\<close>, and the shape \<^verbatim>\<open>YYYY-MM-DD HH:MM\<close>: sixteen
  characters, the separators in their places and digits everywhere else.
\<close>

definition valid_datetime :: "datetime \<Rightarrow> bool" where
  "valid_datetime dt =
     (1 \<le> year dt \<and> year dt \<le> 9999 \<and> 1 \<le> month dt \<and> month dt \<le> 12 \<and>
      1 \<le> day dt \<and> day dt \<le> 31 \<and> hour dt < 24 \<and> minute dt < 60)"

definition is_digit :: "char \<Rightarrow> bool" where
  "is_digit c = (c \<in> set ''0123456789'')"

definition is_ymd_hm :: "string \<Rightarrow> bool" where
  "is_ymd_hm s =
     (length s = 16 \<and> s ! 4 = CHR ''-'' \<and> s ! 7 = CHR ''-'' \<and> s ! 10 = CHR '' '' \<and>
      s ! 13 = CHR '':'' \<and>
      list_all (\<lambda>i. is_digit (s ! i)) [0, 1, 2, 3, 5, 6, 8, 9, 11, 12, 14, 15])"

section \<open>Facts about the helpers\<close>

text \<open>
  \<open>rstrip_slash\<close> removes exactly a run of trailing slashes, and leaves nothing only
  when the text had no other character.  For a valid \<^verbatim>\<open>datetime\<close> from the year 1000 on
  the rendering of \<^verbatim>\<open>'%Y-%m-%d %H:%M'\<close> has the shape \<^verbatim>\<open>YYYY-MM-DD HH:MM\<close>, whether or not
  the platform pads the year.
\<close>

lemma rstrip_slash_Nil_iff: "rstrip_slash s = [] \<longleftrightarrow> set s \<subseteq> {CHR ''/''}"
  by (auto simp: rstrip_slash_def)

lemma rstrip_slash_decomp: "\<exists>n. s = rstrip_slash s @ replicate n (CHR ''/'')"
proof -
  let ?P = "\<lambda>c. c = CHR ''/''"
  let ?tail = "takeWhile ?P (rev s)"
  have "s = rev (?tail @ dropWhile ?P (rev s))"
    by (simp only: takeWhile_dropWhile_id rev_rev_ident)
  then have s: "s = rstrip_slash s @ rev ?tail"
    by (simp only: rev_append rstrip_slash_def)
  have "\<forall>c \<in> set ?tail. c = CHR ''/''"
    by (auto dest: set_takeWhileD)
  then have "?tail = replicate (length ?tail) (CHR ''/'')"
    by (simp add: replicate_length_same)
  then have "rev ?tail = replicate (length ?tail) (CHR ''/'')"
    by (metis rev_replicate)
  with s show ?thesis by metis
qed

lemma rstrip_slash_last: "rstrip_slash s \<noteq> [] \<Longrightarrow> last (rstrip_slash s) \<noteq> CHR ''/''"
  unfolding rstrip_slash_def
  by (metis (mono_tags, lifting) hd_dropWhile last_rev rev_is_Nil_conv)

lemma digit_char_is_digit: "is_digit (digit_char d)"
proof -
  have "d mod 10 < length ''0123456789''" by simp
  then show ?thesis
    unfolding is_digit_def digit_char_def by (rule nth_mem)
qed

lemma dec_one_digit: "n < 10 \<Longrightarrow> dec n = [digit_char n]"
  by (simp add: dec.simps)

lemma dec_two_digits: "10 \<le> n \<Longrightarrow> n < 100 \<Longrightarrow> dec n = [digit_char (n div 10), digit_char n]"
  by (subst dec.simps) (simp add: dec_one_digit digit_char_def)

lemma dec_three_digits:
  "100 \<le> n \<Longrightarrow> n < 1000 \<Longrightarrow> dec n = [digit_char (n div 100), digit_char (n div 10), digit_char n]"
  by (subst dec.simps) (simp add: dec_two_digits digit_char_def div_mult2_eq [symmetric])

lemma dec_four_digits:
  "1000 \<le> n \<Longrightarrow> n < 10000 \<Longrightarrow>
   dec n = [digit_char (n div 1000), digit_char (n div 100), digit_char (n div 10), digit_char n]"
  by (subst dec.simps) (simp add: dec_three_digits digit_char_def div_mult2_eq [symmetric])

lemma zero_pad_2: "n < 100 \<Longrightarrow> zero_pad 2 n = [digit_char (n div 10), digit_char n]"
proof (cases "n < 10")
  case True
  then show ?thesis by (simp add: zero_pad_def dec_one_digit digit_char_def)
next
  case False
  assume "n < 100"
  with False show ?thesis by (simp add: zero_pad_def dec_two_digits)
qed

lemma zero_pad_4:
  assumes "n < 10000"
  shows "zero_pad 4 n =
           [digit_char (n div 1000), digit_char (n div 100), digit_char (n div 10), digit_char n]"
proof -
  consider "n < 10" | "10 \<le> n" "n < 100" | "100 \<le> n" "n < 1000" | "1000 \<le> n"
    by linarith
  then show ?thesis
  proof cases
    case 1
    then show ?thesis by (simp add: zero_pad_def dec_one_digit digit_char_def numeral_3_eq_3)
  next
    case 2
    then show ?thesis by (simp add: zero_pad_def dec_two_digits digit_char_def numeral_2_eq_2)
  next
    case 3
    then show ?thesis by (simp add: zero_pad_def dec_three_digits digit_char_def)
  next
    case 4
    with assms show ?thesis by (simp add: zero_pad_def dec_four_digits)
  qed
qed

lemma strftime_ymd_hm_shape:
  "valid_datetime dt \<Longrightarrow> 1000 \<le> year dt \<Longrightarrow> is_ymd_hm (strftime_ymd_hm pads dt)"
  by (simp add: valid_datetime_def strftime_ymd_hm_def zero_pad_2 zero_pad_4 dec_four_digits
      is_ymd_hm_def digit_char_is_digit)

text \<open>Below the year 1000 the two platform renderings differ: glibc gives three digits.\<close>

lemma strftime_ymd_hm_year_999:
  "strftime_ymd_hm False \<lparr> year = 999, month = 1, day = 2, hour = 3, minute = 4 \<rparr>
     = ''999-01-02 03:04''
   \<and> strftime_ymd_hm True \<lparr> year = 999, month = 1, day = 2, hour = 3, minute = 4 \<rparr>
     = ''0999-01-02 03:04''"
  by (simp add: strftime_ymd_hm_def zero_pad_2 zero_pad_4 dec_three_digits digit_char_def)

section \<open>Facts about one call\<close>

text \<open>The definitions of the test doubles, for evaluating a call on them.\<close>

lemmas run_defs = mock_client_def ok_response_def garbled_response_def fixed_transport_def
  calm_world_def stormy_world_def

text \<open>The three ways the shared \<^verbatim>\<open>try\<close> block around the GET can end.\<close>

lemma checked_get_ok:
  "session self req = Inr resp \<Longrightarrow> raise_for_status resp = None \<Longrightarrow> checked_get self req = Inr resp"
  by (simp add: checked_get_def)

lemma checked_get_raised:
  "session self req = Inl err \<Longrightarrow> checked_get self req = Inl err"
  by (simp add: checked_get_def)

lemma checked_get_http_error:
  "session self req = Inr resp \<Longrightarrow> 400 \<le> status_code resp \<Longrightarrow> status_code resp < 600 \<Longrightarrow>
   checked_get self req = Inl (HTTPError (status_code resp))"
  by (simp add: checked_get_def raise_for_status_def)

text \<open>
  What \<open>submit\<close> returns and does once the GET has come back without an exception: the
  result has \<open>status = True\<close> on every path, and the effects are the request, the
  decoding warning if any, and either the missing-id warning or the write to the store.
\<close>

lemma submit_after_get:
  assumes "session self (submit_request w self link package_name autostart) = Inr resp"
      and "raise_for_status resp = None"
  shows "submit w self link package_name autostart record_id =
           (Inr \<lparr> status = True,
                  jobid = jobid_text w (extract_job_id (fst (decode_payload resp))),
                  payload = Some (fst (decode_payload resp)),
                  error = None \<rparr>,
            [HttpGet (submit_request w self link package_name autostart)]
            @ (if snd (decode_payload resp)
               then [LogWarn ''[JD2] Unable to decode submit response JSON: %s''] else [])
            @ (if extract_job_id (fst (decode_payload resp)) = PNone
               then [LogWarn ''[JD2] No job id returned for %s'']
               else persist_job w (py_str w (extract_job_id (fst (decode_payload resp)))) record_id))"
  using assms by (simp add: submit_def checked_get_def Let_def split: prod.splits)

text \<open>The value of \<^verbatim>\<open>base_url or mylar.CONFIG.JD2_URL or ''\<close>, case by case.\<close>

lemma first_url_cases:
  "first_url b c =
     (if opt_str_truthy b then the b else if opt_str_truthy c then the c else [])"
  by (cases b; cases c) (auto simp: first_url_def opt_str_or_def)

text \<open>The record-store events of lines 82 to 95.\<close>

lemma persist_job_db_events:
  "filter is_db_event (persist_job w job_key record_id) =
     (case record_id of
        None \<Rightarrow> []
      | Some rid \<Rightarrow>
          if rid = [] then []
          else if db_connection w = None
               then [DbConnect, DbUpsert ''ddl_info'' (upsert_values w job_key) [(''id'', rid)]]
               else [DbConnect])"
  by (auto simp: persist_job_def split: option.splits)

text \<open>
  Lines 82 to 95 written out: what the write to the record store leaves in the trace, by
  the record id, by whether \<^verbatim>\<open>db.DBConnection()\<close> raises and by whether the upsert does.
\<close>

lemma persist_job_trace:
  "persist_job w job_key record_id =
     (case record_id of
        None \<Rightarrow> []
      | Some rid \<Rightarrow>
          if rid = [] then []
          else (case db_connection w of
                  Some err \<Rightarrow>
                    [DbConnect, LogWarn ''[JD2] Unable to persist job id %s for record %s: %s'']
                | None \<Rightarrow>
                    [DbConnect,
                     DbUpsert ''ddl_info''
                       [(''jd2_job_id'', job_key),
                        (''status'', ''JD2-Submitted''),
                        (''updated_date'', strftime_ymd_hm (libc_pads_year w) (now w))]
                       [(''id'', rid)]]
                    @ (case db_upsert w ''ddl_info''
                              [(''jd2_job_id'', job_key),
                               (''status'', ''JD2-Submitted''),
                               (''updated_date'', strftime_ymd_hm (libc_pads_year w) (now w))]
                              [(''id'', rid)] of
                         None \<Rightarrow> []
                       | Some err \<Rightarrow>
                           [LogWarn ''[JD2] Unable to persist job id %s for record %s: %s''])))"
  by (simp add: persist_job_def upsert_values_def split: option.splits)

text \<open>A job id can only come from a body that decoded: after a failed decode the payload is \<^verbatim>\<open>{}\<close>.\<close>

lemma job_id_found_decoded:
  "extract_job_id (fst (decode_payload resp)) \<noteq> PNone \<Longrightarrow> snd (decode_payload resp) = False"
  by (cases "json resp") (simp_all add: decode_payload_def extract_job_id_def dict_get_def py_or_def)

text \<open>Lines 73 to 76 on a payload that is a dict, by the shape of its \<^verbatim>\<open>data\<close> entry.\<close>

lemma extract_job_id_dict:
  "extract_job_id (PDict kvs) =
     (case map_of kvs ''data'' of
        None \<Rightarrow> py_or (dict_get kvs ''id'' PNone) (dict_get kvs ''jobID'' PNone)
      | Some (PDict d) \<Rightarrow> py_or (dict_get d ''id'' PNone) (dict_get d ''jobID'' PNone)
      | Some _ \<Rightarrow> PNone)"
  by (simp add: extract_job_id_def dict_get_def split: option.splits pyval.splits)

text \<open>A decoded dict is kept as it is: \<^verbatim>\<open>{} or {}\<close> is \<^verbatim>\<open>{}\<close>.\<close>

lemma decode_payload_dict: "json resp = Inr (PDict kvs) \<Longrightarrow> decode_payload resp = (PDict kvs, False)"
  by (cases kvs) (simp_all add: decode_payload_def py_or_def)

text \<open>
  On a payload that is a dict, \<open>query\<close> returns the \<^verbatim>\<open>data\<close> entry when it is a list and
  the empty list otherwise.
\<close>

lemma query_dict_payload:
  assumes "job_ids \<noteq> []"
      and "session self (query_request w self job_ids) = Inr resp"
      and "raise_for_status resp = None"
      and "json resp = Inr (PDict kvs)"
  shows "fst (query w self job_ids) =
           Inr (case map_of kvs ''data'' of Some (PList xs) \<Rightarrow> xs | _ \<Rightarrow> [])"
  using assms
  by (simp add: query_def checked_get_def decode_payload_def py_or_def dict_get_def Let_def
      split: option.splits pyval.splits)

text \<open>The mocked client: what it sends for \<open>submit\<close>, and what its transport answers.\<close>

lemma session_mock: "session (mock_client r) req = r"
  by (simp add: mock_client_def fixed_transport_def)

lemma submit_request_on_mock:
  "submit_request w (mock_client r) link package_name autostart =
     \<lparr> url = ''http://localhost:3128/linkgrabberv2/addLinks'',
       params = [(''query'', json_dumps w (PDict
          [(''assignJobID'', PBool True), (''autostart'', PBool autostart),
           (''links'', PStr link), (''packageName'', PStr package_name)]))],
       req_timeout = 30 \<rparr>"
  by (simp add: submit_request_def submit_query_def url_of_def LINKGRABBER_ENDPOINT_def
      lstrip_slash_def mock_client_def)

text \<open>The clock of the test worlds, rendered.\<close>

lemma calm_clock:
  "strftime_ymd_hm (libc_pads_year calm_world) (now calm_world) = ''2026-11-04 09:05''"
  by (simp add: calm_world_def strftime_ymd_hm_def zero_pad_2 dec_four_digits digit_char_def)

text \<open>Whatever happens next, the first effect of \<open>submit\<close> is the GET of its request.\<close>

lemma submit_starts_with_get:
  "\<exists>rest. snd (submit w self link package_name autostart record_id) =
           HttpGet (submit_request w self link package_name autostart) # rest"
  by (cases "checked_get self (submit_request w self link package_name autostart)")
     (simp_all add: submit_def Let_def split: prod.splits)

section \<open>Construction\<close>

text \<open>
  C7, as the code has it: construction raises ValueError (the configuration error of the
  specification) exactly when \<^verbatim>\<open>base_url or mylar.CONFIG.JD2_URL or ''\<close> has no character
  other than \<^verbatim>\<open>/\<close>, which covers the case where neither source gives a non-empty text,
  and also a chosen text made of slashes only.  Otherwise construction succeeds and the
  stored base URL is the chosen text with its trailing slashes removed; it is not empty and
  does not end with a slash.  The chosen text is the argument when that is non-empty, else
  the configured URL when that is non-empty, else the empty text.
\<close>

theorem init_base_url_rule:
  "(if set (first_url b (config_JD2_URL w)) \<subseteq> {CHR ''/''}
    then init w b t s = (Inl (ValueError ''JD2 URL is not configured''), [])
    else (\<exists>self evs. init w b t s = (Inr self, evs) \<and>
            base_url self = rstrip_slash (first_url b (config_JD2_URL w)) \<and>
            base_url self \<noteq> [] \<and> last (base_url self) \<noteq> CHR ''/''))
   \<and> first_url b (config_JD2_URL w) =
        (if opt_str_truthy b then the b
         else if opt_str_truthy (config_JD2_URL w) then the (config_JD2_URL w) else [])"
proof -
  let ?u = "first_url b (config_JD2_URL w)"
  have "init w b t s = (Inl (ValueError ''JD2 URL is not configured''), [])"
    if "set ?u \<subseteq> {CHR ''/''}"
    using that by (simp add: init_def rstrip_slash_Nil_iff)
  moreover have "\<exists>self evs. init w b t s = (Inr self, evs) \<and>
            base_url self = rstrip_slash ?u \<and> base_url self \<noteq> [] \<and> last (base_url self) \<noteq> CHR ''/''"
    if "\<not> set ?u \<subseteq> {CHR ''/''}"
  proof -
    from that have ne: "rstrip_slash ?u \<noteq> []"
      by (simp add: rstrip_slash_Nil_iff)
    then have "last (rstrip_slash ?u) \<noteq> CHR ''/''"
      by (rule rstrip_slash_last)
    with ne show ?thesis
      by (simp add: init_def Let_def split: option.splits)
  qed
  ultimately show ?thesis
    using first_url_cases [of b "config_JD2_URL w"] by simp
qed

text \<open>
  C7, witness: with the URL taken from the configuration (\<^verbatim>\<open>http://localhost:3128/\<close>) the
  client is built with the slash trimmed; with the argument \<^verbatim>\<open>///\<close> construction raises.
\<close>

theorem init_base_url_rule_witness:
  "init calm_world None 30 (Some (fixed_transport (ok_response PNone)))
     = (Inr (mock_client (ok_response PNone)), [])
   \<and> (\<exists>evs. init calm_world (Some ''///'') 30 None = (Inl (ValueError ''JD2 URL is not configured''), evs))"
  using init_base_url_rule [of None calm_world 30 "Some (fixed_transport (ok_response PNone))"]
    init_base_url_rule [of "Some ''///''" calm_world 30 None]
  by (auto simp: init_def first_url_def opt_str_or_def rstrip_slash_def run_defs)

text \<open>
  C7, counterexample to the claim as stated: the argument \<^verbatim>\<open>'/'\<close> is a non-empty value,
  and construction raises all the same, since the test comes after \<^verbatim>\<open>rstrip('/')\<close>.
\<close>

theorem init_only_slashes_counterexample:
  "opt_str_truthy (Some ''/'') \<and>
   init (calm_world\<lparr>config_JD2_URL := None\<rparr>) (Some ''/'') 30 None
     = (Inl (ValueError ''JD2 URL is not configured''), [])"
  by (simp add: init_def first_url_def opt_str_or_def rstrip_slash_def)

text \<open>
  C9: with a destination directory configured and a usable base URL, construction succeeds
  whether or not \<^verbatim>\<open>os.makedirs\<close> raises.  When it raises, the effects are the attempt and
  one warning, and the query object of every later \<open>submit\<close> has no \<^verbatim>\<open>destinationFolder\<close>
  entry; when it does not, the query object of every later \<open>submit\<close> carries the
  configured directory under \<^verbatim>\<open>destinationFolder\<close>.  In both cases that query object,
  serialised, is the \<^verbatim>\<open>query\<close> parameter of the request \<open>submit\<close> sends first.
\<close>

theorem destination_folder_follows_makedirs:
  assumes "config_JD2_DEST_DIR w = Some d" and "d \<noteq> []"
      and "\<not> set (first_url b (config_JD2_URL w)) \<subseteq> {CHR ''/''}"
  shows "\<exists>self evs. init w b t s = (Inr self, evs) \<and>
           (case makedirs w d of
              Some err \<Rightarrow>
                evs = [Makedirs d, LogWarn ''[JD2] Unable to ensure destination folder exists: %s''] \<and>
                map_of (submit_query self link package_name autostart) ''destinationFolder'' = None
            | None \<Rightarrow>
                evs = [Makedirs d] \<and>
                map_of (submit_query self link package_name autostart) ''destinationFolder''
                  = Some (PStr d)) \<and>
           (\<exists>rest. snd (submit w' self link package_name autostart record_id) =
              HttpGet \<lparr> url = url_of self LINKGRABBER_ENDPOINT,
                        params = [(''query'',
                                   json_dumps w' (PDict (submit_query self link package_name autostart)))],
                        req_timeout = t \<rparr> # rest)"
proof -
  from assms(3) have ne: "rstrip_slash (first_url b (config_JD2_URL w)) \<noteq> []"
    by (simp add: rstrip_slash_Nil_iff)
  obtain self evs where i: "init w b t s = (Inr self, evs)"
    using ne assms(1,2) by (cases "makedirs w d") (auto simp: init_def Let_def)
  have t: "timeout self = t"
    using i ne assms(1,2) by (auto simp: init_def Let_def split: option.splits)
  have f: "case makedirs w d of
              Some err \<Rightarrow>
                evs = [Makedirs d, LogWarn ''[JD2] Unable to ensure destination folder exists: %s''] \<and>
                destination_folder self = None
            | None \<Rightarrow> evs = [Makedirs d] \<and> destination_folder self = Some d"
    using i ne assms(1,2) by (auto simp: init_def Let_def split: option.splits)
  have q: "case makedirs w d of
              Some err \<Rightarrow>
                evs = [Makedirs d, LogWarn ''[JD2] Unable to ensure destination folder exists: %s''] \<and>
                map_of (submit_query self link package_name autostart) ''destinationFolder'' = None
            | None \<Rightarrow>
                evs = [Makedirs d] \<and>
                map_of (submit_query self link package_name autostart) ''destinationFolder''
                  = Some (PStr d)"
    using f assms(2) by (auto simp: submit_query_def split: option.splits)
  have "\<exists>rest. snd (submit w' self link package_name autostart record_id) =
              HttpGet \<lparr> url = url_of self LINKGRABBER_ENDPOINT,
                        params = [(''query'',
                                   json_dumps w' (PDict (submit_query self link package_name autostart)))],
                        req_timeout = t \<rparr> # rest"
    using submit_starts_with_get [of w' self link package_name autostart record_id] t
    by (simp add: submit_request_def)
  with i q show ?thesis
    by blast
qed

text \<open>
  C9, witness: the directory \<^verbatim>\<open>/downloads/jd2\<close> is configured; in one world creating it is
  refused, in the other it works.
\<close>

theorem destination_folder_follows_makedirs_witness:
  "(\<exists>self. init stormy_world None 30 None
              = (Inr self, [Makedirs ''/downloads/jd2'',
                            LogWarn ''[JD2] Unable to ensure destination folder exists: %s'']) \<and>
            map_of (submit_query self ''https://getcomics.org/dl/1'' ''Saga 001'' True)
              ''destinationFolder'' = None)
   \<and> (\<exists>self. init (calm_world\<lparr>config_JD2_DEST_DIR := Some ''/downloads/jd2''\<rparr>) None 30 None
              = (Inr self, [Makedirs ''/downloads/jd2'']) \<and>
            map_of (submit_query self ''https://getcomics.org/dl/1'' ''Saga 001'' True)
              ''destinationFolder'' = Some (PStr ''/downloads/jd2''))"
proof -
  let ?sunny = "calm_world\<lparr>config_JD2_DEST_DIR := Some ''/downloads/jd2''\<rparr>"
  have u: "first_url None (Some ''http://localhost:3128/'') = ''http://localhost:3128/''"
    by (simp add: first_url_def opt_str_or_def)
  have cfg: "config_JD2_URL stormy_world = Some ''http://localhost:3128/''"
    "config_JD2_DEST_DIR stormy_world = Some ''/downloads/jd2''"
    "makedirs stormy_world ''/downloads/jd2'' = Some (OtherError ''Permission denied'')"
    "config_JD2_URL ?sunny = Some ''http://localhost:3128/''"
    "config_JD2_DEST_DIR ?sunny = Some ''/downloads/jd2''"
    "makedirs ?sunny ''/downloads/jd2'' = None"
    "config_JD2_URL calm_world = Some ''http://localhost:3128/''"
    "makedirs calm_world ''/downloads/jd2'' = None"
    by (simp_all add: stormy_world_def calm_world_def)
  have "\<exists>self. init stormy_world None 30 None
              = (Inr self, [Makedirs ''/downloads/jd2'',
                            LogWarn ''[JD2] Unable to ensure destination folder exists: %s'']) \<and>
            map_of (submit_query self ''https://getcomics.org/dl/1'' ''Saga 001'' True)
              ''destinationFolder'' = None"
    using destination_folder_follows_makedirs [where w = stormy_world and d = "''/downloads/jd2''"
        and b = None and t = 30 and s = None and link = "''https://getcomics.org/dl/1''"
        and package_name = "''Saga 001''" and autostart = True and w' = stormy_world
        and record_id = None]
    by (auto simp add: cfg u)
  moreover
  have "\<exists>self. init ?sunny None 30 None = (Inr self, [Makedirs ''/downloads/jd2'']) \<and>
            map_of (submit_query self ''https://getcomics.org/dl/1'' ''Saga 001'' True)
              ''destinationFolder'' = Some (PStr ''/downloads/jd2'')"
    using destination_folder_follows_makedirs [where w = ?sunny and d = "''/downloads/jd2''"
        and b = None and t = 30 and s = None and link = "''https://getcomics.org/dl/1''"
        and package_name = "''Saga 001''" and autostart = True and w' = ?sunny
        and record_id = None]
    by (auto simp add: cfg u)
  ultimately show ?thesis
    by blast
qed

section \<open>submit\<close>

text \<open>
  C4, as the code has it: when the GET raises, or the response has a 4xx or 5xx status
  code (the codes for which \<^verbatim>\<open>raise_for_status\<close> raises), \<open>submit\<close> returns
  \<open>status = False\<close>, no job id, and the exception as \<open>error\<close>.  Its only effects are the
  one GET and one error log line: no second request and nothing sent to the record store.
\<close>

theorem submit_transport_failure:
  "(session self (submit_request w self link package_name autostart) = Inl err \<longrightarrow>
      submit w self link package_name autostart record_id =
        (Inr \<lparr> status = False, jobid = None, payload = None, error = Some err \<rparr>,
         [HttpGet (submit_request w self link package_name autostart),
          LogError ''[JD2] Failed to submit %s (url=%s params=%s): %s'']))
   \<and> (session self (submit_request w self link package_name autostart) = Inr resp \<and>
       400 \<le> status_code resp \<and> status_code resp < 600 \<longrightarrow>
      submit w self link package_name autostart record_id =
        (Inr \<lparr> status = False, jobid = None, payload = None,
               error = Some (HTTPError (status_code resp)) \<rparr>,
         [HttpGet (submit_request w self link package_name autostart),
          LogError ''[JD2] Failed to submit %s (url=%s params=%s): %s'']))"
  by (simp add: submit_def checked_get_def raise_for_status_def)

text \<open>
  C4, witness: a transport that raises, and a transport that answers 503 with a body that
  carries a job id.
\<close>

theorem submit_transport_failure_witness:
  "submit calm_world (mock_client (Inl (OtherError ''timed out''))) ''https://getcomics.org/dl/1'' ''Saga 001''
     True (Some ''r1'')
   = (Inr \<lparr> status = False, jobid = None, payload = None, error = Some (OtherError ''timed out'') \<rparr>,
      [HttpGet \<lparr> url = ''http://localhost:3128/linkgrabberv2/addLinks'',
                 params = [(''query'', ''<json>'')], req_timeout = 30 \<rparr>,
       LogError ''[JD2] Failed to submit %s (url=%s params=%s): %s''])
   \<and> submit calm_world (mock_client (ok_response_with 503 (PDict [(''id'', PInt 9)])))
     ''https://getcomics.org/dl/1'' ''Saga 001'' True (Some ''r1'')
   = (Inr \<lparr> status = False, jobid = None, payload = None, error = Some (HTTPError 503) \<rparr>,
      [HttpGet \<lparr> url = ''http://localhost:3128/linkgrabberv2/addLinks'',
                 params = [(''query'', ''<json>'')], req_timeout = 30 \<rparr>,
       LogError ''[JD2] Failed to submit %s (url=%s params=%s): %s''])"
proof -
  let ?c1 = "mock_client (Inl (OtherError ''timed out''))"
  let ?r2 = "\<lparr> status_code = 503, json = Inr (PDict [(''id'', PInt 9)]) \<rparr>"
  let ?c2 = "mock_client (ok_response_with 503 (PDict [(''id'', PInt 9)]))"
  let ?rq = "\<lparr> url = ''http://localhost:3128/linkgrabberv2/addLinks'',
                 params = [(''query'', ''<json>'')], req_timeout = 30 \<rparr>"
  have rq1: "submit_request calm_world ?c1 ''https://getcomics.org/dl/1'' ''Saga 001'' True = ?rq"
    by (simp add: submit_request_def url_of_def LINKGRABBER_ENDPOINT_def lstrip_slash_def run_defs)
  have rq2: "submit_request calm_world ?c2 ''https://getcomics.org/dl/1'' ''Saga 001'' True = ?rq"
    by (simp add: submit_request_def url_of_def LINKGRABBER_ENDPOINT_def lstrip_slash_def run_defs)
  have s1: "session ?c1 ?rq = Inl (OtherError ''timed out'')"
    by (simp add: run_defs)
  have s2: "session ?c2 ?rq = Inr ?r2"
    by (simp add: run_defs ok_response_with_def)
  show ?thesis
    using submit_transport_failure [of ?c1 calm_world "''https://getcomics.org/dl/1''" "''Saga 001''" True
        "OtherError ''timed out''" "Some ''r1''" ?r2]
      submit_transport_failure [of ?c2 calm_world "''https://getcomics.org/dl/1''" "''Saga 001''" True
        "OtherError ''timed out''" "Some ''r1''" ?r2]
    by (simp add: rq1 rq2 s1 s2)
qed

text \<open>
  C4, counterexample to the claim as stated: 304 is not a 2xx status code, but
  \<^verbatim>\<open>raise_for_status\<close> does not raise for it, so \<open>submit\<close> goes on to decode the body and
  returns \<open>status = True\<close>.
\<close>

theorem submit_status_304_counterexample:
  "submit calm_world (mock_client (garbled_response 304)) ''https://getcomics.org/dl/1'' ''Saga 001'' True None
   = (Inr \<lparr> status = True, jobid = None, payload = Some (PDict []), error = None \<rparr>,
      [HttpGet \<lparr> url = ''http://localhost:3128/linkgrabberv2/addLinks'',
                 params = [(''query'', ''<json>'')], req_timeout = 30 \<rparr>,
       LogWarn ''[JD2] Unable to decode submit response JSON: %s'',
       LogWarn ''[JD2] No job id returned for %s''])"
  by (simp add: submit_def checked_get_def raise_for_status_def decode_payload_def
      extract_job_id_def dict_get_def py_or_def jobid_text_def submit_request_def url_of_def
      LINKGRABBER_ENDPOINT_def lstrip_slash_def submit_query_def run_defs)

text \<open>
  C5: when the GET succeeds and \<^verbatim>\<open>resp.json()\<close> raises, \<open>submit\<close> returns normally with
  \<open>status = True\<close>, no job id and the empty dict as payload.  It logs the decoding
  warning and the missing-id warning, and does not touch the record store.
\<close>

theorem submit_undecodable_body:
  assumes "session self (submit_request w self link package_name autostart) = Inr resp"
      and "raise_for_status resp = None"
      and "json resp = Inl json_err"
  shows "submit w self link package_name autostart record_id =
           (Inr \<lparr> status = True, jobid = None, payload = Some (PDict []), error = None \<rparr>,
            [HttpGet (submit_request w self link package_name autostart),
             LogWarn ''[JD2] Unable to decode submit response JSON: %s'',
             LogWarn ''[JD2] No job id returned for %s''])"
proof -
  from assms(3) have "decode_payload resp = (PDict [], True)"
    by (simp add: decode_payload_def)
  moreover have "extract_job_id (PDict []) = PNone"
    by (simp add: extract_job_id_def dict_get_def py_or_def)
  ultimately show ?thesis
    using submit_after_get [OF assms(1,2)] by (simp add: jobid_text_def py_or_def)
qed

text \<open>C5, witness: a 200 response whose body does not decode, with a record id supplied.\<close>

theorem submit_undecodable_body_witness:
  "submit stormy_world (mock_client (garbled_response 200)) ''https://getcomics.org/dl/1'' ''Saga 001'' True
     (Some ''r1'')
   = (Inr \<lparr> status = True, jobid = None, payload = Some (PDict []), error = None \<rparr>,
      [HttpGet \<lparr> url = ''http://localhost:3128/linkgrabberv2/addLinks'',
                 params = [(''query'', ''<json>'')], req_timeout = 30 \<rparr>,
       LogWarn ''[JD2] Unable to decode submit response JSON: %s'',
       LogWarn ''[JD2] No job id returned for %s''])"
proof -
  let ?c = "mock_client (garbled_response 200)"
  let ?resp = "\<lparr> status_code = 200, json = Inl (ValueError ''Expecting value'') \<rparr>"
  have a: "session ?c (submit_request stormy_world ?c ''https://getcomics.org/dl/1'' ''Saga 001'' True) = Inr ?resp"
    by (simp add: run_defs)
  have b: "raise_for_status ?resp = None"
    by (simp add: raise_for_status_def)
  have c: "json ?resp = Inl (ValueError ''Expecting value'')"
    by simp
  have d: "submit_request stormy_world ?c ''https://getcomics.org/dl/1'' ''Saga 001'' True
             = \<lparr> url = ''http://localhost:3128/linkgrabberv2/addLinks'',
                 params = [(''query'', ''<json>'')], req_timeout = 30 \<rparr>"
    by (simp add: submit_request_def url_of_def LINKGRABBER_ENDPOINT_def lstrip_slash_def run_defs)
  show ?thesis
    using submit_undecodable_body [OF a b c, of "Some ''r1''"] by (simp only: d)
qed

text \<open>
  C2, as the code has it: when the GET succeeds and the decoded payload is a dict, the job
  id is \<^verbatim>\<open>data.id or data.jobID\<close> when the \<^verbatim>\<open>data\<close> entry is a dict, and the top-level
  \<^verbatim>\<open>id or jobID\<close> when there is no \<^verbatim>\<open>data\<close> entry.  When the \<^verbatim>\<open>data\<close> entry is present
  and is not a dict, no job id is extracted: the top-level entries are not consulted.  The
  result carries the job id as \<^verbatim>\<open>str(job_id)\<close>, or no job id when it is \<^verbatim>\<open>None\<close>.
\<close>

theorem submit_job_id_paths:
  assumes "session self (submit_request w self link package_name autostart) = Inr resp"
      and "raise_for_status resp = None"
      and "json resp = Inr (PDict kvs)"
  shows "\<exists>r evs. submit w self link package_name autostart record_id = (Inr r, evs) \<and>
           jobid r = jobid_text w
             (case map_of kvs ''data'' of
                None \<Rightarrow> py_or (dict_get kvs ''id'' PNone) (dict_get kvs ''jobID'' PNone)
              | Some (PDict d) \<Rightarrow> py_or (dict_get d ''id'' PNone) (dict_get d ''jobID'' PNone)
              | Some _ \<Rightarrow> PNone)"
  using submit_after_get [OF assms(1,2)] decode_payload_dict [OF assms(3)]
  by (simp add: extract_job_id_dict)

text \<open>
  C2, witness: an id nested under \<^verbatim>\<open>data\<close>, a top-level \<^verbatim>\<open>jobID\<close> without \<^verbatim>\<open>data\<close>, and
  a \<^verbatim>\<open>data\<close> entry that is a string.
\<close>

theorem submit_job_id_paths_witness:
  "(\<exists>r evs. submit calm_world (mock_client (ok_response (PDict [(''data'', PDict [(''id'', PStr ''42'')])])))
       ''https://getcomics.org/dl/1'' ''Saga 001'' True None = (Inr r, evs) \<and> jobid r = Some ''42'')
   \<and> (\<exists>r evs. submit calm_world (mock_client (ok_response (PDict [(''jobID'', PInt 1650)])))
       ''https://getcomics.org/dl/1'' ''Saga 001'' True None = (Inr r, evs) \<and> jobid r = Some ''1650'')
   \<and> (\<exists>r evs. submit calm_world (mock_client (ok_response (PDict [(''data'', PStr ''queued''), (''id'', PStr ''42'')])))
       ''https://getcomics.org/dl/1'' ''Saga 001'' True None = (Inr r, evs) \<and> jobid r = None)"
proof -
  let ?k1 = "[(''data'', PDict [(''id'', PStr ''42'')])]"
  let ?k2 = "[(''jobID'', PInt 1650)]"
  let ?k3 = "[(''data'', PStr ''queued''), (''id'', PStr ''42'')]"
  have ok: "raise_for_status \<lparr> status_code = 200, json = Inr v \<rparr> = None" for v
    by (simp add: raise_for_status_def)
  have d: "dec 1650 = ''1650''"
    by code_simp
  have "\<exists>r evs. submit calm_world (mock_client (ok_response (PDict ?k1)))
       ''https://getcomics.org/dl/1'' ''Saga 001'' True None = (Inr r, evs) \<and> jobid r = Some ''42''"
    using submit_job_id_paths [where self = "mock_client (ok_response (PDict ?k1))"
        and w = calm_world and link = "''https://getcomics.org/dl/1''"
        and package_name = "''Saga 001''" and autostart = True and record_id = None
        and resp = "\<lparr> status_code = 200, json = Inr (PDict ?k1) \<rparr>" and kvs = ?k1]
    by (simp add: session_mock ok ok_response_def dict_get_def py_or_def jobid_text_def)
  moreover
  have "\<exists>r evs. submit calm_world (mock_client (ok_response (PDict ?k2)))
       ''https://getcomics.org/dl/1'' ''Saga 001'' True None = (Inr r, evs) \<and> jobid r = Some ''1650''"
    using submit_job_id_paths [where self = "mock_client (ok_response (PDict ?k2))"
        and w = calm_world and link = "''https://getcomics.org/dl/1''"
        and package_name = "''Saga 001''" and autostart = True and record_id = None
        and resp = "\<lparr> status_code = 200, json = Inr (PDict ?k2) \<rparr>" and kvs = ?k2]
    by (simp add: session_mock ok ok_response_def dict_get_def py_or_def jobid_text_def str_int_def d)
  moreover
  have "\<exists>r evs. submit calm_world (mock_client (ok_response (PDict ?k3)))
       ''https://getcomics.org/dl/1'' ''Saga 001'' True None = (Inr r, evs) \<and> jobid r = None"
    using submit_job_id_paths [where self = "mock_client (ok_response (PDict ?k3))"
        and w = calm_world and link = "''https://getcomics.org/dl/1''"
        and package_name = "''Saga 001''" and autostart = True and record_id = None
        and resp = "\<lparr> status_code = 200, json = Inr (PDict ?k3) \<rparr>" and kvs = ?k3]
    by (simp add: session_mock ok ok_response_def dict_get_def py_or_def jobid_text_def)
  ultimately show ?thesis
    by blast
qed

text \<open>
  C2, counterexample to the claim as stated: the payload
  \<^verbatim>\<open>{"data": "queued", "id": "42"}\<close> has a \<^verbatim>\<open>data\<close> entry that is not a mapping and a
  top-level \<^verbatim>\<open>id\<close>, and \<open>submit\<close> returns no job id.
\<close>

theorem submit_data_not_mapping_counterexample:
  "submit calm_world (mock_client (ok_response (PDict [(''data'', PStr ''queued''), (''id'', PStr ''42'')])))
     ''https://getcomics.org/dl/1'' ''Saga 001'' True None
   = (Inr \<lparr> status = True, jobid = None,
            payload = Some (PDict [(''data'', PStr ''queued''), (''id'', PStr ''42'')]),
            error = None \<rparr>,
      [HttpGet \<lparr> url = ''http://localhost:3128/linkgrabberv2/addLinks'',
                 params = [(''query'', ''<json>'')], req_timeout = 30 \<rparr>,
       LogWarn ''[JD2] No job id returned for %s''])
   \<and> py_or (dict_get [(''data'', PStr ''queued''), (''id'', PStr ''42'')] ''id'' PNone)
           (dict_get [(''data'', PStr ''queued''), (''id'', PStr ''42'')] ''jobID'' PNone) = PStr ''42''"
  by (simp add: submit_def checked_get_def raise_for_status_def decode_payload_def
      extract_job_id_def dict_get_def py_or_def jobid_text_def submit_request_def url_of_def
      LINKGRABBER_ENDPOINT_def lstrip_slash_def submit_query_def run_defs)

text \<open>
  C10, as the code has it: when the \<^verbatim>\<open>id\<close> entry of the data mapping (the \<^verbatim>\<open>data\<close> entry,
  or the payload itself when it has none) is falsy or missing, the extracted job id is
  whatever \<^verbatim>\<open>data.get('jobID')\<close> gives, here \<open>j\<close>.  When \<open>j\<close> is \<^verbatim>\<open>None\<close> the result has no
  job id, the missing-id warning is logged and the record store is not touched.  A falsy
  \<open>j\<close> other than \<^verbatim>\<open>None\<close> is returned as its text and goes to the record store like any
  other job id: with no record id, or an empty one, nothing happens; with a non-empty one
  the store is opened, and unless opening it raises, one upsert with that text is issued.
\<close>

theorem submit_falsy_id_falls_through:
  assumes "session self (submit_request w self link package_name autostart) = Inr resp"
      and "raise_for_status resp = None"
      and "json resp = Inr (PDict kvs)"
      and "dict_get kvs ''data'' (PDict kvs) = PDict d"
      and "\<not> py_truthy (dict_get d ''id'' PNone)"
      and "dict_get d ''jobID'' PNone = j"
  shows "\<exists>evs. submit w self link package_name autostart record_id =
             (Inr \<lparr> status = True,
                    jobid = (if j = PNone then None else Some (py_str w j)),
                    payload = Some (PDict kvs), error = None \<rparr>, evs) \<and>
           evs = HttpGet (submit_request w self link package_name autostart) #
             (if j = PNone then [LogWarn ''[JD2] No job id returned for %s'']
              else (case record_id of
                      None \<Rightarrow> []
                    | Some rid \<Rightarrow>
                        if rid = [] then []
                        else (case db_connection w of
                                Some err \<Rightarrow>
                                  [DbConnect,
                                   LogWarn ''[JD2] Unable to persist job id %s for record %s: %s'']
                              | None \<Rightarrow>
                                  [DbConnect,
                                   DbUpsert ''ddl_info''
                                     [(''jd2_job_id'', py_str w j),
                                      (''status'', ''JD2-Submitted''),
                                      (''updated_date'',
                                       strftime_ymd_hm (libc_pads_year w) (now w))]
                                     [(''id'', rid)]]
                                  @ (case db_upsert w ''ddl_info''
                                            [(''jd2_job_id'', py_str w j),
                                             (''status'', ''JD2-Submitted''),
                                             (''updated_date'',
                                              strftime_ymd_hm (libc_pads_year w) (now w))]
                                            [(''id'', rid)] of
                                       None \<Rightarrow> []
                                     | Some err \<Rightarrow>
                                         [LogWarn
                                            ''[JD2] Unable to persist job id %s for record %s: %s''])))) \<and>
           filter is_db_event evs =
             (if j = PNone then []
              else (case record_id of
                      None \<Rightarrow> []
                    | Some rid \<Rightarrow>
                        if rid = [] then []
                        else if db_connection w = None
                             then [DbConnect,
                                   DbUpsert ''ddl_info''
                                     [(''jd2_job_id'', py_str w j),
                                      (''status'', ''JD2-Submitted''),
                                      (''updated_date'',
                                       strftime_ymd_hm (libc_pads_year w) (now w))]
                                     [(''id'', rid)]]
                             else [DbConnect]))"
proof -
  have ex: "extract_job_id (PDict kvs) = j"
    using assms(4,5,6) by (simp add: extract_job_id_def py_or_def)
  have run: "submit w self link package_name autostart record_id =
           (Inr \<lparr> status = True, jobid = jobid_text w j, payload = Some (PDict kvs),
                  error = None \<rparr>,
            HttpGet (submit_request w self link package_name autostart) #
            (if j = PNone then [LogWarn ''[JD2] No job id returned for %s'']
             else persist_job w (py_str w j) record_id))"
    using submit_after_get [OF assms(1,2), of record_id] decode_payload_dict [OF assms(3)] ex
    by simp
  have db: "filter is_db_event (persist_job w (py_str w j) record_id) =
              (case record_id of
                 None \<Rightarrow> []
               | Some rid \<Rightarrow>
                   if rid = [] then []
                   else if db_connection w = None
                        then [DbConnect,
                              DbUpsert ''ddl_info''
                                [(''jd2_job_id'', py_str w j),
                                 (''status'', ''JD2-Submitted''),
                                 (''updated_date'', strftime_ymd_hm (libc_pads_year w) (now w))]
                                [(''id'', rid)]]
                        else [DbConnect])"
    by (auto simp add: persist_job_db_events upsert_values_def split: option.splits)
  show ?thesis
  proof (cases "j = PNone")
    case True
    with run show ?thesis by (simp add: jobid_text_def)
  next
    case False
    with run db show ?thesis
      by (simp add: jobid_text_def persist_job_trace [symmetric])
  qed
qed

text \<open>
  C10, witness: \<^verbatim>\<open>{"id": 0}\<close> with the record id \<^verbatim>\<open>r1\<close> gives no job id and no write;
  \<^verbatim>\<open>{"data": {"id": "", "jobID": "a7"}}\<close> gives the job id \<^verbatim>\<open>a7\<close> and one upsert.
\<close>

theorem submit_falsy_id_falls_through_witness:
  "submit calm_world (mock_client (ok_response (PDict [(''id'', PInt 0)])))
       ''https://getcomics.org/dl/1'' ''Saga 001'' True (Some ''r1'')
     = (Inr \<lparr> status = True, jobid = None, payload = Some (PDict [(''id'', PInt 0)]),
              error = None \<rparr>,
        [HttpGet \<lparr> url = ''http://localhost:3128/linkgrabberv2/addLinks'',
                   params = [(''query'', ''<json>'')], req_timeout = 30 \<rparr>,
         LogWarn ''[JD2] No job id returned for %s''])
   \<and> submit calm_world
       (mock_client (ok_response (PDict [(''data'', PDict [(''id'', PStr []), (''jobID'', PStr ''a7'')])])))
       ''https://getcomics.org/dl/1'' ''Saga 001'' True (Some ''r1'')
     = (Inr \<lparr> status = True, jobid = Some ''a7'',
              payload = Some (PDict [(''data'', PDict [(''id'', PStr []), (''jobID'', PStr ''a7'')])]),
              error = None \<rparr>,
        [HttpGet \<lparr> url = ''http://localhost:3128/linkgrabberv2/addLinks'',
                   params = [(''query'', ''<json>'')], req_timeout = 30 \<rparr>,
         DbConnect,
         DbUpsert ''ddl_info''
           [(''jd2_job_id'', ''a7''), (''status'', ''JD2-Submitted''),
            (''updated_date'', ''2026-11-04 09:05'')]
           [(''id'', ''r1'')]])"
proof -
  let ?k1 = "[(''id'', PInt 0)]"
  let ?d2 = "[(''id'', PStr []), (''jobID'', PStr ''a7'')]"
  let ?k2 = "[(''data'', PDict ?d2)]"
  have ok: "raise_for_status \<lparr> status_code = 200, json = Inr v \<rparr> = None" for v
    by (simp add: raise_for_status_def)
  have db: "db_connection calm_world = None" "db_upsert calm_world = (\<lambda>t vals keys. None)"
    "json_dumps calm_world = (\<lambda>v. ''<json>'')"
    by (simp_all add: calm_world_def)
  have "submit calm_world (mock_client (ok_response (PDict ?k1)))
       ''https://getcomics.org/dl/1'' ''Saga 001'' True (Some ''r1'')
     = (Inr \<lparr> status = True, jobid = None, payload = Some (PDict ?k1), error = None \<rparr>,
        [HttpGet \<lparr> url = ''http://localhost:3128/linkgrabberv2/addLinks'',
                   params = [(''query'', ''<json>'')], req_timeout = 30 \<rparr>,
         LogWarn ''[JD2] No job id returned for %s''])"
    using submit_falsy_id_falls_through [where self = "mock_client (ok_response (PDict ?k1))"
        and w = calm_world and link = "''https://getcomics.org/dl/1''"
        and package_name = "''Saga 001''" and autostart = True and record_id = "Some ''r1''"
        and resp = "\<lparr> status_code = 200, json = Inr (PDict ?k1) \<rparr>" and kvs = ?k1 and d = ?k1
        and j = PNone]
    by (auto simp add: session_mock submit_request_on_mock ok ok_response_def dict_get_def db)
  moreover
  have "submit calm_world (mock_client (ok_response (PDict ?k2)))
       ''https://getcomics.org/dl/1'' ''Saga 001'' True (Some ''r1'')
     = (Inr \<lparr> status = True, jobid = Some ''a7'', payload = Some (PDict ?k2), error = None \<rparr>,
        [HttpGet \<lparr> url = ''http://localhost:3128/linkgrabberv2/addLinks'',
                   params = [(''query'', ''<json>'')], req_timeout = 30 \<rparr>,
         DbConnect,
         DbUpsert ''ddl_info''
           [(''jd2_job_id'', ''a7''), (''status'', ''JD2-Submitted''),
            (''updated_date'', ''2026-11-04 09:05'')]
           [(''id'', ''r1'')]])"
    using submit_falsy_id_falls_through [where self = "mock_client (ok_response (PDict ?k2))"
        and w = calm_world and link = "''https://getcomics.org/dl/1''"
        and package_name = "''Saga 001''" and autostart = True and record_id = "Some ''r1''"
        and resp = "\<lparr> status_code = 200, json = Inr (PDict ?k2) \<rparr>" and kvs = ?k2 and d = ?d2
        and j = "PStr ''a7''"]
    by (auto simp add: session_mock submit_request_on_mock ok ok_response_def dict_get_def db
        calm_clock)
  ultimately show ?thesis
    by (rule conjI)
qed

text \<open>
  C10, counterexample to the claim as stated: in \<^verbatim>\<open>{"id": 0, "jobID": 0}\<close> both entries
  are falsy, yet the result carries the job id \<^verbatim>\<open>0\<close> and the upsert is issued, because
  line 78 tests \<^verbatim>\<open>job_id is None\<close>.
\<close>

theorem submit_falsy_job_id_counterexample:
  "submit calm_world (mock_client (ok_response (PDict [(''id'', PInt 0), (''jobID'', PInt 0)])))
     ''https://getcomics.org/dl/1'' ''Saga 001'' True (Some ''r1'')
   = (Inr \<lparr> status = True, jobid = Some ''0'',
            payload = Some (PDict [(''id'', PInt 0), (''jobID'', PInt 0)]),
            error = None \<rparr>,
      [HttpGet \<lparr> url = ''http://localhost:3128/linkgrabberv2/addLinks'',
                 params = [(''query'', ''<json>'')], req_timeout = 30 \<rparr>,
       DbConnect,
       DbUpsert ''ddl_info''
         [(''jd2_job_id'', ''0''), (''status'', ''JD2-Submitted''),
          (''updated_date'', ''2026-11-04 09:05'')]
         [(''id'', ''r1'')]])"
proof -
  have db: "db_connection calm_world = None" "db_upsert calm_world = (\<lambda>t vals keys. None)"
    "json_dumps calm_world = (\<lambda>v. ''<json>'')"
    by (simp_all add: calm_world_def)
  have d0: "dec 0 = ''0''"
    by (simp add: dec.simps digit_char_def)
  show ?thesis
    by (simp add: submit_def checked_get_def raise_for_status_def decode_payload_def
      extract_job_id_def dict_get_def py_or_def jobid_text_def submit_request_on_mock session_mock
      ok_response_def persist_job_def upsert_values_def calm_clock db str_int_def d0 Let_def)
qed

text \<open>
  C3, as the code has it: when the GET succeeds and a job id is found, \<open>submit\<close> returns
  \<open>status = True\<close> with the job id as text, whatever the record store does.  With a
  non-empty \<^verbatim>\<open>record_id\<close> it opens the record store once; unless opening it raises, it
  issues exactly one upsert, on table \<^verbatim>\<open>ddl_info\<close>, keyed by \<^verbatim>\<open>id = record_id\<close>, setting
  \<^verbatim>\<open>jd2_job_id\<close> to the job id as text, \<^verbatim>\<open>status\<close> to \<^verbatim>\<open>JD2-Submitted\<close> and \<^verbatim>\<open>updated_date\<close>
  to the current time rendered by \<^verbatim>\<open>'%Y-%m-%d %H:%M'\<close>; an exception from opening the store
  or from the upsert leaves one warning in the log and nothing else.  With no record id,
  or an empty one, the record store is not touched.  For a clock from the year 1000 on
  the rendered time has the shape \<^verbatim>\<open>YYYY-MM-DD HH:MM\<close>.
\<close>

theorem submit_persists_job_id:
  assumes "session self (submit_request w self link package_name autostart) = Inr resp"
      and "raise_for_status resp = None"
      and "extract_job_id (fst (decode_payload resp)) = job_id"
      and "job_id \<noteq> PNone"
  shows "\<exists>evs. submit w self link package_name autostart record_id =
             (Inr \<lparr> status = True, jobid = Some (py_str w job_id),
                    payload = Some (fst (decode_payload resp)), error = None \<rparr>, evs) \<and>
           evs = HttpGet (submit_request w self link package_name autostart) #
             (case record_id of
                None \<Rightarrow> []
              | Some rid \<Rightarrow>
                  if rid = [] then []
                  else (case db_connection w of
                          Some err \<Rightarrow>
                            [DbConnect,
                             LogWarn ''[JD2] Unable to persist job id %s for record %s: %s'']
                        | None \<Rightarrow>
                            [DbConnect,
                             DbUpsert ''ddl_info''
                               [(''jd2_job_id'', py_str w job_id),
                                (''status'', ''JD2-Submitted''),
                                (''updated_date'', strftime_ymd_hm (libc_pads_year w) (now w))]
                               [(''id'', rid)]]
                            @ (case db_upsert w ''ddl_info''
                                      [(''jd2_job_id'', py_str w job_id),
                                       (''status'', ''JD2-Submitted''),
                                       (''updated_date'',
                                        strftime_ymd_hm (libc_pads_year w) (now w))]
                                      [(''id'', rid)] of
                                 None \<Rightarrow> []
                               | Some err \<Rightarrow>
                                   [LogWarn
                                      ''[JD2] Unable to persist job id %s for record %s: %s'']))) \<and>
           filter is_db_event evs =
             (case record_id of
                None \<Rightarrow> []
              | Some rid \<Rightarrow>
                  if rid = [] then []
                  else if db_connection w = None
                       then [DbConnect,
                             DbUpsert ''ddl_info''
                               [(''jd2_job_id'', py_str w job_id),
                                (''status'', ''JD2-Submitted''),
                                (''updated_date'', strftime_ymd_hm (libc_pads_year w) (now w))]
                               [(''id'', rid)]]
                       else [DbConnect]) \<and>
           (valid_datetime (now w) \<and> 1000 \<le> year (now w) \<longrightarrow>
              is_ymd_hm (strftime_ymd_hm (libc_pads_year w) (now w)))"
proof -
  have shape: "valid_datetime (now w) \<and> 1000 \<le> year (now w) \<longrightarrow>
              is_ymd_hm (strftime_ymd_hm (libc_pads_year w) (now w))"
    by (simp add: strftime_ymd_hm_shape)
  have dec: "snd (decode_payload resp) = False"
    using assms(3,4) by (auto dest: job_id_found_decoded)
  have run: "submit w self link package_name autostart record_id =
           (Inr \<lparr> status = True, jobid = Some (py_str w job_id),
                  payload = Some (fst (decode_payload resp)), error = None \<rparr>,
            HttpGet (submit_request w self link package_name autostart) #
            persist_job w (py_str w job_id) record_id)"
    using submit_after_get [OF assms(1,2), of record_id] assms(3,4) dec
    by (simp add: jobid_text_def)
  have db: "filter is_db_event (persist_job w (py_str w job_id) record_id) =
              (case record_id of
                 None \<Rightarrow> []
               | Some rid \<Rightarrow>
                   if rid = [] then []
                   else if db_connection w = None
                        then [DbConnect,
                              DbUpsert ''ddl_info''
                                [(''jd2_job_id'', py_str w job_id),
                                 (''status'', ''JD2-Submitted''),
                                 (''updated_date'', strftime_ymd_hm (libc_pads_year w) (now w))]
                                [(''id'', rid)]]
                        else [DbConnect])"
    by (auto simp add: persist_job_db_events upsert_values_def split: option.splits)
  from run db shape show ?thesis
    by (simp add: persist_job_trace [symmetric])
qed

text \<open>
  C3, witness: the daemon answers \<^verbatim>\<open>{"data": {"id": "42"}}\<close> and the upsert raises; the
  result still has \<open>status = True\<close> and the job id \<^verbatim>\<open>42\<close>, after one upsert and one warning.
\<close>

theorem submit_persists_job_id_witness:
  "submit stormy_world (mock_client (ok_response (PDict [(''data'', PDict [(''id'', PStr ''42'')])])))
     ''https://getcomics.org/dl/1'' ''Saga 001'' True (Some ''r1'')
   = (Inr \<lparr> status = True, jobid = Some ''42'',
            payload = Some (PDict [(''data'', PDict [(''id'', PStr ''42'')])]), error = None \<rparr>,
      [HttpGet \<lparr> url = ''http://localhost:3128/linkgrabberv2/addLinks'',
                 params = [(''query'', ''<json>'')], req_timeout = 30 \<rparr>,
       DbConnect,
       DbUpsert ''ddl_info''
         [(''jd2_job_id'', ''42''), (''status'', ''JD2-Submitted''),
          (''updated_date'', ''2026-11-04 09:05'')]
         [(''id'', ''r1'')],
       LogWarn ''[JD2] Unable to persist job id %s for record %s: %s''])
   \<and> is_ymd_hm ''2026-11-04 09:05''"
proof -
  let ?k = "[(''data'', PDict [(''id'', PStr ''42'')])]"
  let ?resp = "\<lparr> status_code = 200, json = Inr (PDict ?k) \<rparr>"
  let ?c = "mock_client (ok_response (PDict ?k))"
  have ts: "strftime_ymd_hm (libc_pads_year stormy_world) (now stormy_world) = ''2026-11-04 09:05''"
    using calm_clock by (simp add: stormy_world_def)
  have w: "db_connection stormy_world = None"
    "db_upsert stormy_world = (\<lambda>t vals keys. Some (OtherError ''database is locked''))"
    "json_dumps stormy_world = (\<lambda>v. ''<json>'')"
    "valid_datetime (now stormy_world)"
    "1000 \<le> year (now stormy_world)"
    by (simp_all add: stormy_world_def calm_world_def valid_datetime_def)
  have dp: "decode_payload ?resp = (PDict ?k, False)"
    by (simp add: decode_payload_def py_or_def)
  have ex: "extract_job_id (PDict ?k) = PStr ''42''"
    by (simp add: extract_job_id_def dict_get_def py_or_def)
  show ?thesis
    using submit_persists_job_id [where self = ?c and w = stormy_world
        and link = "''https://getcomics.org/dl/1''" and package_name = "''Saga 001''"
        and autostart = True and resp = ?resp and job_id = "PStr ''42''"
        and record_id = "Some ''r1''"]
    by (auto simp add: session_mock submit_request_on_mock ok_response_def raise_for_status_def
        dp ex w ts)
qed

text \<open>
  C3, counterexample to the claim as stated: with the job id \<^verbatim>\<open>42\<close> found, the record id
  \<^verbatim>\<open>''\<close> leads to no upsert at all (line 82 tests \<^verbatim>\<open>if record_id:\<close>), and with the record
  id \<^verbatim>\<open>r1\<close> a \<^verbatim>\<open>db.DBConnection()\<close> that raises leads to no upsert either.
\<close>

theorem submit_no_upsert_counterexample:
  "submit calm_world (mock_client (ok_response (PDict [(''data'', PDict [(''id'', PStr ''42'')])])))
     ''https://getcomics.org/dl/1'' ''Saga 001'' True (Some [])
   = (Inr \<lparr> status = True, jobid = Some ''42'',
            payload = Some (PDict [(''data'', PDict [(''id'', PStr ''42'')])]), error = None \<rparr>,
      [HttpGet \<lparr> url = ''http://localhost:3128/linkgrabberv2/addLinks'',
                 params = [(''query'', ''<json>'')], req_timeout = 30 \<rparr>])
   \<and> submit (calm_world\<lparr>db_connection := Some (OtherError ''unable to open database file'')\<rparr>)
       (mock_client (ok_response (PDict [(''data'', PDict [(''id'', PStr ''42'')])])))
     ''https://getcomics.org/dl/1'' ''Saga 001'' True (Some ''r1'')
   = (Inr \<lparr> status = True, jobid = Some ''42'',
            payload = Some (PDict [(''data'', PDict [(''id'', PStr ''42'')])]), error = None \<rparr>,
      [HttpGet \<lparr> url = ''http://localhost:3128/linkgrabberv2/addLinks'',
                 params = [(''query'', ''<json>'')], req_timeout = 30 \<rparr>,
       DbConnect,
       LogWarn ''[JD2] Unable to persist job id %s for record %s: %s''])"
proof -
  let ?k = "[(''data'', PDict [(''id'', PStr ''42'')])]"
  let ?resp = "\<lparr> status_code = 200, json = Inr (PDict ?k) \<rparr>"
  have dp: "decode_payload ?resp = (PDict ?k, False)"
    by (simp add: decode_payload_def py_or_def)
  have ex: "extract_job_id (PDict ?k) = PStr ''42''"
    by (simp add: extract_job_id_def dict_get_def py_or_def)
  have w: "json_dumps calm_world = (\<lambda>v. ''<json>'')"
    by (simp add: calm_world_def)
  show ?thesis
    by (simp add: submit_def checked_get_def session_mock ok_response_def raise_for_status_def
        dp ex jobid_text_def persist_job_def submit_request_on_mock w)
qed

section \<open>query and status\<close>

text \<open>
  C8: \<open>query\<close> on the empty list of job ids returns the empty list and has no effect at
  all, in particular it sends no request.
\<close>

theorem query_empty_ids: "query w self [] = (Inr [], [])"
  by (simp add: query_def)

text \<open>
  C1 fails on the code where the decoded payload is itself a list.  The default argument
  on line 128 provides for that case, but \<^verbatim>\<open>payload.get\<close> is looked up on the list first
  and raises AttributeError, which nothing catches.  Here the daemon answers the query for
  job \<^verbatim>\<open>17\<close> with the JSON array \<^verbatim>\<open>[{"status": "FINISHED"}]\<close>.
\<close>

theorem query_list_payload_raises:
  "query calm_world
     (mock_client (ok_response (PList [PDict [(''status'', PStr ''FINISHED'')]]))) [''17'']
   = (Inl (AttributeError ''get''),
      [HttpGet \<lparr> url = ''http://localhost:3128/downloadsV2/queryLinks'',
                 params = [(''queryParams'', ''<json>'')], req_timeout = 30 \<rparr>])"
  by (simp add: query_def checked_get_def raise_for_status_def decode_payload_def py_or_def
      query_request_def url_of_def DOWNLOADS_ENDPOINT_def lstrip_slash_def run_defs)

text \<open>
  C6: \<open>status\<close> of \<^verbatim>\<open>None\<close> is the not-found result with no effect at all.  When the query
  for the single id returns a non-empty list, the result is found, its status is the
  \<^verbatim>\<open>status\<close> entry of the first record (\<^verbatim>\<open>None\<close> when the record is not a dict or has no
  such entry) and its data is the first record.  When the query returns the empty list,
  the result is the not-found one.
\<close>

theorem status_shapes:
  "job_status_of w self None = (Inr \<lparr> found = False, job_status = PNone, data = PNone \<rparr>, [])
   \<and> (query w self [j] = (Inr (package # rest), evs) \<longrightarrow>
        job_status_of w self (Some j) =
          (Inr \<lparr> found = True,
                 job_status = (case package of PDict kvs \<Rightarrow> dict_get kvs ''status'' PNone
                               | _ \<Rightarrow> PNone),
                 data = package \<rparr>, evs))
   \<and> (query w self [j] = (Inr [], evs) \<longrightarrow>
        job_status_of w self (Some j) =
          (Inr \<lparr> found = False, job_status = PNone, data = PNone \<rparr>, evs))"
  by (simp add: job_status_of_def)

text \<open>
  C6, witness: a daemon that answers with two records nested under \<^verbatim>\<open>data\<close>, and one that
  answers with the empty array.
\<close>

theorem status_shapes_witness:
  "job_status_of calm_world
     (mock_client (ok_response (PDict [(''data'', PList [PDict [(''status'', PStr ''FINISHED'')], PInt 7])])))
     (Some ''17'')
   = (Inr \<lparr> found = True, job_status = PStr ''FINISHED'',
            data = PDict [(''status'', PStr ''FINISHED'')] \<rparr>,
      [HttpGet \<lparr> url = ''http://localhost:3128/downloadsV2/queryLinks'',
                 params = [(''queryParams'', ''<json>'')], req_timeout = 30 \<rparr>])
   \<and> job_status_of calm_world (mock_client (ok_response (PList []))) (Some ''17'')
   = (Inr \<lparr> found = False, job_status = PNone, data = PNone \<rparr>,
      [HttpGet \<lparr> url = ''http://localhost:3128/downloadsV2/queryLinks'',
                 params = [(''queryParams'', ''<json>'')], req_timeout = 30 \<rparr>])"
proof -
  let ?rq = "\<lparr> url = ''http://localhost:3128/downloadsV2/queryLinks'',
                 params = [(''queryParams'', ''<json>'')], req_timeout = 30 \<rparr>"
  let ?c1 = "mock_client (ok_response (PDict [(''data'', PList [PDict [(''status'', PStr ''FINISHED'')], PInt 7])]))"
  let ?c2 = "mock_client (ok_response (PList []))"
  have q1: "query calm_world ?c1 [''17''] = (Inr (PDict [(''status'', PStr ''FINISHED'')] # [PInt 7]), [HttpGet ?rq])"
    by (simp add: query_def checked_get_def raise_for_status_def decode_payload_def py_or_def
        query_request_def url_of_def DOWNLOADS_ENDPOINT_def lstrip_slash_def dict_get_def run_defs)
  have q2: "query calm_world ?c2 [''17''] = (Inr [], [HttpGet ?rq])"
    by (simp add: query_def checked_get_def raise_for_status_def decode_payload_def py_or_def
        query_request_def url_of_def DOWNLOADS_ENDPOINT_def lstrip_slash_def dict_get_def run_defs)
  show ?thesis
    using status_shapes [of calm_world ?c1 "''17''" "PDict [(''status'', PStr ''FINISHED'')]" "[PInt 7]" "[HttpGet ?rq]"]
      status_shapes [of calm_world ?c2 "''17''" PNone "[]" "[HttpGet ?rq]"] q1 q2
    by (simp add: dict_get_def)
qed

end
